theory Spec2Isabelle
  imports Main
begin

section \<open>The tables of \<^verbatim>\<open>main.py\<close>\<close>

text \<open>
  The three SQLAlchemy models become records, one row each. Primary keys are Python
  integers; the foreign-key columns are declared without \<^verbatim>\<open>nullable=False\<close>, so they
  are optional. The string columns of \<^verbatim>\<open>User\<close> and \<^verbatim>\<open>BlogPost\<close> are only ever written
  from the data of a submitted form, which is a string.
  Field names are prefixed where two tables share a column name.
\<close>

record user =
  uid :: int
  email :: string
  password :: string
  name :: string

record blog_post =
  pid :: int
  author_id :: "int option"
  title :: string
  subtitle :: string
  date :: string
  body :: string
  img_url :: string

record comment =
  cid :: int
  comment_text :: string
  comment_author_id :: "int option"
  comment_post_id :: "int option"

text \<open>
  The state a request handler reads and writes: the three tables, the identity bound to
  the session cookie (flask-login's \<^verbatim>\<open>_user_id\<close>), and the flashed messages.
  The handlers are modelled for an application whose session is usable (a secret key is
  configured); what start-up does when it is not is modelled separately below.
\<close>

record world =
  users :: "user list"
  blog_posts :: "blog_post list"
  comments :: "comment list"
  session_user_id :: "int option"
  flashes :: "string list"

datatype error = UnmappedInstanceError | IntegrityError | AttributeError

datatype endpoint = Get_all_posts | Login | Show_post int

datatype response = Redirect endpoint | Render string

type_synonym result = "error + response \<times> world"

section \<open>The store\<close>

text \<open>
  The store is the default one of the configuration, a local SQLite file: it enforces the
  \<^verbatim>\<open>unique\<close> constraints of the columns, and it does not enforce the lengths of the
  \<^verbatim>\<open>String(n)\<close> columns. A failed commit raises, and nothing is written.

  The auto-assigned integer primary key: one more than the largest key in the table.
\<close>

definition next_id :: "int list \<Rightarrow> int" where
  "next_id ks = fold max ks 0 + 1"

text \<open>\<^verbatim>\<open>Model.query.get(k)\<close>: the row with primary key \<open>k\<close>, or \<^verbatim>\<open>None\<close>.\<close>

definition query_get :: "('r \<Rightarrow> int) \<Rightarrow> 'r list \<Rightarrow> int \<Rightarrow> 'r option" where
  "query_get key rows k = find (\<lambda>r. key r = k) rows"

text \<open>\<^verbatim>\<open>User.query.filter_by(email=e).first()\<close>.\<close>

definition filter_by_email_first :: "user list \<Rightarrow> string \<Rightarrow> user option" where
  "filter_by_email_first us e = find (\<lambda>u. email u = e) us"

text \<open>
  \<^verbatim>\<open>db.session.add(User(...)); db.session.commit()\<close>. The column \<^verbatim>\<open>email\<close> is declared
  \<^verbatim>\<open>unique=True\<close>: the store refuses a second row with the same email.
\<close>

definition db_add_user :: "string \<Rightarrow> string \<Rightarrow> string \<Rightarrow> world \<Rightarrow> error + user \<times> world" where
  "db_add_user e p n w =
     (if list_ex (\<lambda>u. email u = e) (users w) then Inl IntegrityError
      else (let new_user = \<lparr>uid = next_id (map uid (users w)), email = e, password = p, name = n\<rparr>
            in Inr (new_user, w\<lparr>users := users w @ [new_user]\<rparr>)))"

text \<open>
  \<^verbatim>\<open>db.session.add(BlogPost(...)); db.session.commit()\<close>. The column \<^verbatim>\<open>title\<close> is declared
  \<^verbatim>\<open>unique=True\<close>.
\<close>

definition db_add_post ::
  "int option \<Rightarrow> string \<Rightarrow> string \<Rightarrow> string \<Rightarrow> string \<Rightarrow> string \<Rightarrow> world \<Rightarrow> error + world" where
  "db_add_post a t s d b i w =
     (if list_ex (\<lambda>q. title q = t) (blog_posts w) then Inl IntegrityError
      else Inr (w\<lparr>blog_posts := blog_posts w @
             [\<lparr>pid = next_id (map pid (blog_posts w)), author_id = a, title = t, subtitle = s,
               date = d, body = b, img_url = i\<rparr>]\<rparr>))"

text \<open>
  \<^verbatim>\<open>db.session.add(Comment(...)); db.session.commit()\<close>. No column of \<^verbatim>\<open>Comment\<close> carries
  a constraint, so the insert always succeeds.
\<close>

definition db_add_comment :: "string \<Rightarrow> int option \<Rightarrow> int option \<Rightarrow> world \<Rightarrow> world" where
  "db_add_comment t a p w =
     w\<lparr>comments := comments w @
        [\<lparr>cid = next_id (map cid (comments w)), comment_text = t, comment_author_id = a,
          comment_post_id = p\<rparr>]\<rparr>"

text \<open>
  The four assignments of \<^verbatim>\<open>edit_post\<close> followed by \<^verbatim>\<open>db.session.commit()\<close>: the row with
  the post's primary key gets the four new values. The store refuses the update when
  another row already has the new title.
\<close>

definition set_fields :: "string \<Rightarrow> string \<Rightarrow> string \<Rightarrow> string \<Rightarrow> blog_post \<Rightarrow> blog_post" where
  "set_fields t s i b q = q\<lparr>title := t, subtitle := s, img_url := i, body := b\<rparr>"

definition db_update_post ::
  "blog_post \<Rightarrow> string \<Rightarrow> string \<Rightarrow> string \<Rightarrow> string \<Rightarrow> world \<Rightarrow> error + world" where
  "db_update_post post t s i b w =
     (if list_ex (\<lambda>q. pid q \<noteq> pid post \<and> title q = t) (blog_posts w) then Inl IntegrityError
      else Inr (w\<lparr>blog_posts :=
                  map (\<lambda>q. if pid q = pid post then set_fields t s i b q else q) (blog_posts w)\<rparr>))"

text \<open>
  \<^verbatim>\<open>db.session.delete(x); db.session.commit()\<close> where \<open>x\<close> is the result of a lookup.
  SQLAlchemy raises \<^verbatim>\<open>UnmappedInstanceError\<close> when handed \<^verbatim>\<open>None\<close>. The relationship
  \<^verbatim>\<open>comments\<close> declares no cascade, so the comments of a deleted post stay, with their
  \<^verbatim>\<open>post_id\<close> set to NULL.
\<close>

definition db_delete_post :: "blog_post option \<Rightarrow> world \<Rightarrow> error + world" where
  "db_delete_post x w =
     (case x of
        None \<Rightarrow> Inl UnmappedInstanceError
      | Some post \<Rightarrow>
          Inr (w\<lparr>blog_posts := filter (\<lambda>q. pid q \<noteq> pid post) (blog_posts w),
                 comments := map (\<lambda>c. if comment_post_id c = Some (pid post)
                                        then c\<lparr>comment_post_id := None\<rparr> else c) (comments w)\<rparr>))"

section \<open>Session and identity\<close>

text \<open>\<^verbatim>\<open>load_user\<close>, the \<^verbatim>\<open>user_loader\<close> callback.\<close>

definition load_user :: "world \<Rightarrow> int \<Rightarrow> user option" where
  "load_user w user_id = query_get uid (users w) user_id"

text \<open>
  flask-login's \<^verbatim>\<open>current_user\<close>: the user loaded for the identity in the session;
  \<open>None\<close> stands for the anonymous user, whose \<^verbatim>\<open>is_authenticated\<close> is false.
\<close>

definition current_user :: "world \<Rightarrow> user option" where
  "current_user w = (case session_user_id w of None \<Rightarrow> None | Some i \<Rightarrow> load_user w i)"

definition is_authenticated :: "user option \<Rightarrow> bool" where
  "is_authenticated cu = (cu \<noteq> None)"

definition login_user :: "user \<Rightarrow> world \<Rightarrow> world" where
  "login_user u w = w\<lparr>session_user_id := Some (uid u)\<rparr>"

definition flash :: "string \<Rightarrow> world \<Rightarrow> world" where
  "flash msg w = w\<lparr>flashes := flashes w @ [msg]\<rparr>"

section \<open>Forms\<close>

text \<open>
  Modelled from the spec: the module \<^verbatim>\<open>forms.py\<close> (\<^verbatim>\<open>RegisterForm\<close>, \<^verbatim>\<open>LoginForm\<close>,
  \<^verbatim>\<open>CommentForm\<close>, \<^verbatim>\<open>CreatePostForm\<close>) is not among the sources. A form is either not
  submitted (a GET request: no field has data) or submitted with the data of its fields
  and the verdict of its validators (the field validators and the CSRF token check),
  which is an input here. \<^verbatim>\<open>validate_on_submit()\<close> is true exactly for a submitted form
  whose validators pass, written \<open>Submitted d True\<close> in the handlers below.
\<close>

datatype 'd form = NotSubmitted | Submitted 'd bool

fun validate_on_submit :: "'d form \<Rightarrow> bool" where
  "validate_on_submit NotSubmitted = False"
| "validate_on_submit (Submitted d ok) = ok"

fun form_data :: "'d form \<Rightarrow> 'd option" where
  "form_data NotSubmitted = None"
| "form_data (Submitted d ok) = Some d"

record register_form =
  rf_email :: string
  rf_password :: string
  rf_name :: string

record login_form =
  lf_email :: string
  lf_password :: string

record comment_form =
  cf_body :: string

record create_post_form =
  pf_title :: string
  pf_subtitle :: string
  pf_img_url :: string
  pf_body :: string

section \<open>The admin guard\<close>

text \<open>
  \<^verbatim>\<open>admin_only(f)\<close>: the decorated function. The route arguments are \<open>args\<close>. Python's
  \<^verbatim>\<open>or\<close> short-circuits, so \<^verbatim>\<open>current_user.id\<close> is read only for an authenticated user.
\<close>

definition admin_only :: "('a \<Rightarrow> world \<Rightarrow> result) \<Rightarrow> 'a \<Rightarrow> world \<Rightarrow> result" where
  "admin_only f args w =
     (case current_user w of
        None \<Rightarrow> Inr (Redirect Get_all_posts, w)
      | Some u \<Rightarrow> if uid u \<noteq> 1 then Inr (Redirect Get_all_posts, w) else f args w)"

section \<open>The route handlers\<close>

text \<open>
  \<^verbatim>\<open>register\<close>. The password hasher \<^verbatim>\<open>generate_password_hash\<close> (werkzeug, with its
  random salt) is a parameter.
\<close>

definition register :: "(string \<Rightarrow> string) \<Rightarrow> register_form form \<Rightarrow> world \<Rightarrow> result" where
  "register generate_password_hash frm w =
     (case frm of
        Submitted d True \<Rightarrow>
          (case filter_by_email_first (users w) (rf_email d) of
             Some u \<Rightarrow>
               Inr (Redirect Login,
                    flash ''You've already sign up with that email, login instead'' w)
           | None \<Rightarrow>
               (case db_add_user (rf_email d) (generate_password_hash (rf_password d))
                       (rf_name d) w of
                  Inl e \<Rightarrow> Inl e
                | Inr (new_user, w') \<Rightarrow> Inr (Redirect Get_all_posts, login_user new_user w')))
      | _ \<Rightarrow> Inr (Render ''register.html'', w))"

text \<open>
  \<^verbatim>\<open>login\<close>. The condition \<^verbatim>\<open>if login_form.validate_on_submit:\<close> tests the bound method
  itself, which is always truthy: the method is never called, and the body of the
  \<^verbatim>\<open>if\<close> always runs. A form that was not submitted has \<^verbatim>\<open>None\<close> as the data of its
  email field, which matches no row. \<^verbatim>\<open>check_password_hash\<close> is a parameter.
\<close>

definition login :: "(string \<Rightarrow> string \<Rightarrow> bool) \<Rightarrow> login_form form \<Rightarrow> world \<Rightarrow> result" where
  "login check_password_hash frm w =
     (case form_data frm of
        None \<Rightarrow> Inr (Render ''login.html'', w)
      | Some d \<Rightarrow>
          (case filter_by_email_first (users w) (lf_email d) of
             Some u \<Rightarrow>
               if check_password_hash (password u) (lf_password d)
               then Inr (Redirect Get_all_posts, login_user u w)
               else Inr (Render ''login.html'', flash ''Incorrect password'' w)
           | None \<Rightarrow> Inr (Render ''login.html'', w)))"

text \<open>\<^verbatim>\<open>show_post\<close>: the detail page and the comment submission.\<close>

definition show_post :: "comment_form form \<Rightarrow> int \<Rightarrow> world \<Rightarrow> result" where
  "show_post frm post_id w =
     (let requested_post = query_get pid (blog_posts w) post_id in
      case frm of
        Submitted d True \<Rightarrow>
          (case current_user w of
             Some u \<Rightarrow>
               Inr (Render ''post.html'',
                    db_add_comment (cf_body d) (Some (uid u)) (map_option pid requested_post) w)
           | None \<Rightarrow> Inr (Redirect Login, flash ''You need to login to comment'' w))
      | _ \<Rightarrow> Inr (Render ''post.html'', w))"

text \<open>\<^verbatim>\<open>contact\<close>.\<close>

definition contact :: "unit \<Rightarrow> world \<Rightarrow> result" where
  "contact args w = Inr (Render ''contact.html'', w)"

text \<open>
  \<^verbatim>\<open>add_new_post\<close>. The formatted date of today is a parameter. Assigning the anonymous
  user to the relationship \<^verbatim>\<open>author\<close> is an attribute error in SQLAlchemy; behind the
  guard the current user is always a row of \<^verbatim>\<open>User\<close>.
\<close>

definition add_new_post :: "string \<Rightarrow> create_post_form form \<Rightarrow> unit \<Rightarrow> world \<Rightarrow> result" where
  "add_new_post today frm args w =
     (case frm of
        Submitted d True \<Rightarrow>
          (case current_user w of
             None \<Rightarrow> Inl AttributeError
           | Some u \<Rightarrow>
               (case db_add_post (Some (uid u)) (pf_title d) (pf_subtitle d) today (pf_body d)
                       (pf_img_url d) w of
                  Inl e \<Rightarrow> Inl e
                | Inr w' \<Rightarrow> Inr (Redirect Get_all_posts, w')))
      | _ \<Rightarrow> Inr (Render ''make-post.html'', w))"

text \<open>
  \<^verbatim>\<open>edit_post\<close>. Reading \<^verbatim>\<open>post.title\<close> to pre-populate the form is an attribute error
  when the lookup returned \<^verbatim>\<open>None\<close>.
\<close>

definition edit_post :: "create_post_form form \<Rightarrow> int \<Rightarrow> world \<Rightarrow> result" where
  "edit_post frm post_id w =
     (case query_get pid (blog_posts w) post_id of
        None \<Rightarrow> Inl AttributeError
      | Some post \<Rightarrow>
          (case frm of
             Submitted d True \<Rightarrow>
               (case db_update_post post (pf_title d) (pf_subtitle d) (pf_img_url d)
                       (pf_body d) w of
                  Inl e \<Rightarrow> Inl e
                | Inr w' \<Rightarrow> Inr (Redirect (Show_post (pid post)), w'))
           | _ \<Rightarrow> Inr (Render ''make-post.html'', w)))"

text \<open>\<^verbatim>\<open>delete_post\<close>.\<close>

definition delete_post :: "int \<Rightarrow> world \<Rightarrow> result" where
  "delete_post post_id w =
     (let post_to_delete = query_get pid (blog_posts w) post_id in
      case db_delete_post post_to_delete w of
        Inl e \<Rightarrow> Inl e
      | Inr w' \<Rightarrow> Inr (Redirect Get_all_posts, w'))"

text \<open>The four routes decorated with \<^verbatim>\<open>@admin_only\<close>.\<close>

definition contact_route :: "world \<Rightarrow> result" where
  "contact_route = admin_only contact ()"

definition new_post_route :: "string \<Rightarrow> create_post_form form \<Rightarrow> world \<Rightarrow> result" where
  "new_post_route today frm = admin_only (add_new_post today frm) ()"

definition edit_post_route :: "create_post_form form \<Rightarrow> int \<Rightarrow> world \<Rightarrow> result" where
  "edit_post_route frm = admin_only (edit_post frm)"

definition delete_route :: "int \<Rightarrow> world \<Rightarrow> result" where
  "delete_route = admin_only delete_post"

section \<open>Start-up configuration\<close>

text \<open>
  The module-level statements that read the environment: \<^verbatim>\<open>os.environ.get\<close> with and
  without a default. No statement of the module raises on a missing value.
\<close>

record config =
  secret_key :: "string option"
  sqlalchemy_database_uri :: string

definition environ_get :: "(string \<rightharpoonup> string) \<Rightarrow> string \<Rightarrow> string option \<Rightarrow> string option" where
  "environ_get environ k dflt = (case environ k of None \<Rightarrow> dflt | Some v \<Rightarrow> Some v)"

definition startup :: "(string \<rightharpoonup> string) \<Rightarrow> error + config" where
  "startup environ =
     Inr \<lparr>secret_key = environ_get environ ''SECRET_KEY'' None,
          sqlalchemy_database_uri =
            (case environ_get environ ''DATABASE_URL1'' (Some ''sqlite:///blog.db'') of
               Some v \<Rightarrow> v | None \<Rightarrow> ''sqlite:///blog.db'')\<rparr>"

section \<open>Example data\<close>

text \<open>
  A stand-in for the password hasher and its check, and a small blog: the administrator
  (primary key 1), a second user, and two posts. \<open>blog who\<close> is that blog with \<open>who\<close>
  as the identity of the session.
\<close>

definition toy_hash :: "string \<Rightarrow> string" where
  "toy_hash p = ''pbkdf2:sha256$'' @ p"

definition toy_check :: "string \<Rightarrow> string \<Rightarrow> bool" where
  "toy_check h p = (h = toy_hash p)"

definition admin_row :: user where
  "admin_row = \<lparr>uid = 1, email = ''admin@x.com'', password = toy_hash ''root'', name = ''Admin''\<rparr>"

definition alice_row :: user where
  "alice_row = \<lparr>uid = 2, email = ''a@x.com'', password = toy_hash ''pw'', name = ''Alice''\<rparr>"

definition post_one :: blog_post where
  "post_one = \<lparr>pid = 1, author_id = Some 1, title = ''T1'', subtitle = ''S1'',
     date = ''November 03, 2026'', body = ''B1'', img_url = ''http://x/i.png''\<rparr>"

definition post_two :: blog_post where
  "post_two = \<lparr>pid = 2, author_id = Some 1, title = ''T2'', subtitle = ''S2'',
     date = ''November 03, 2026'', body = ''B2'', img_url = ''http://x/j.png''\<rparr>"

definition blog :: "int option \<Rightarrow> world" where
  "blog who = \<lparr>users = [admin_row, alice_row], blog_posts = [post_one, post_two],
     comments = [], session_user_id = who, flashes = []\<rparr>"

definition blog_without_post_one :: world where
  "blog_without_post_one = (blog (Some 1))\<lparr>blog_posts := [post_two]\<rparr>"

section \<open>Facts about the store and the guard\<close>

lemmas example_defs = toy_hash_def toy_check_def admin_row_def alice_row_def post_one_def
  post_two_def blog_def

lemmas store_defs = query_get_def filter_by_email_first_def db_add_user_def db_add_post_def
  db_add_comment_def db_update_post_def db_delete_post_def set_fields_def next_id_def

lemmas session_defs = load_user_def current_user_def login_user_def flash_def

lemma next_id_greater: "k \<in> set ks \<Longrightarrow> k < next_id ks"
proof -
  assume "k \<in> set ks"
  have "fold max ks 0 = Max (set (0 # ks))" by (simp only: Max.set_eq_fold)
  moreover have "k \<le> Max (set (0 # ks))" using \<open>k \<in> set ks\<close> by (intro Max_ge) auto
  ultimately show ?thesis by (simp add: next_id_def)
qed

lemma query_get_next_id: "query_get key rows (next_id (map key rows)) = None"
proof -
  have "key r \<noteq> next_id (map key rows)" if "r \<in> set rows" for r
    using next_id_greater [of "key r" "map key rows"] that by auto
  then show ?thesis by (simp add: query_get_def find_None_iff)
qed

lemma find_append: "find P (xs @ ys) = (case find P xs of None \<Rightarrow> find P ys | Some x \<Rightarrow> Some x)"
  by (induction xs) auto

lemma first_None_iff: "filter_by_email_first us e = None \<longleftrightarrow> e \<notin> email ` set us"
  by (auto simp: filter_by_email_first_def find_None_iff)

lemma list_ex_email: "list_ex (\<lambda>u. email u = e) us \<longleftrightarrow> e \<in> email ` set us"
  by (auto simp: list_ex_iff)

lemma current_user_blog_alice: "current_user (blog (Some 2)) = Some alice_row"
  by (simp add: example_defs session_defs query_get_def)

lemma current_user_blog_admin: "current_user (blog (Some 1)) = Some admin_row"
  by (simp add: example_defs session_defs query_get_def)

lemma validate_on_submit_iff: "validate_on_submit frm \<longleftrightarrow> (\<exists>d. frm = Submitted d True)"
  by (cases frm) auto

lemma guard_redirects:
  "\<not> is_authenticated (current_user w) \<or> (\<exists>u. current_user w = Some u \<and> uid u \<noteq> 1) \<Longrightarrow>
   admin_only f args w = Inr (Redirect Get_all_posts, w)"
  by (auto simp: admin_only_def is_authenticated_def)

section \<open>The claims\<close>

subsection \<open>C1: the admin guard\<close>

text \<open>
  C1. For every request to an admin-guarded route (new-post, edit-post, delete, contact)
  whose current identity is not authenticated or whose primary key is not 1, the guard
  returns a redirect to the post listing without invoking the wrapped handler: the result
  is the same whatever the handler \<open>f\<close>, its arguments and the submitted form are, and the
  state returned is the state received, so the Post table is unchanged.
\<close>

theorem admin_only_denies:
  assumes "\<not> is_authenticated (current_user w) \<or> (\<exists>u. current_user w = Some u \<and> uid u \<noteq> 1)"
  shows "admin_only f args w = Inr (Redirect Get_all_posts, w)
       \<and> new_post_route today pfrm w = Inr (Redirect Get_all_posts, w)
       \<and> edit_post_route pfrm post_id w = Inr (Redirect Get_all_posts, w)
       \<and> delete_route post_id w = Inr (Redirect Get_all_posts, w)
       \<and> contact_route w = Inr (Redirect Get_all_posts, w)"
  unfolding new_post_route_def edit_post_route_def delete_route_def contact_route_def
  using assms by (simp add: guard_redirects)

text \<open>
  Witness: the second user is refused the deletion of post 1 and an anonymous caller the
  creation of a post; the administrator's own deletion goes through.
\<close>

theorem admin_only_denies_witness:
  "current_user (blog (Some 2)) = Some alice_row \<and> uid alice_row \<noteq> 1
   \<and> delete_route 1 (blog (Some 2)) = Inr (Redirect Get_all_posts, blog (Some 2))
   \<and> new_post_route ''November 03, 2026''
        (Submitted \<lparr>pf_title = ''T3'', pf_subtitle = ''S3'', pf_img_url = ''u'', pf_body = ''B3''\<rparr> True)
        (blog None) = Inr (Redirect Get_all_posts, blog None)
   \<and> delete_route 1 (blog (Some 1)) = Inr (Redirect Get_all_posts, (blog (Some 1))\<lparr>blog_posts := [post_two]\<rparr>)"
proof -
  have a: "uid alice_row \<noteq> 1" by (simp add: alice_row_def)
  have n: "current_user (blog None) = None" by (simp add: current_user_def blog_def)
  have d: "delete_route 1 (blog (Some 1)) = Inr (Redirect Get_all_posts, (blog (Some 1))\<lparr>blog_posts := [post_two]\<rparr>)"
    by (simp add: delete_route_def admin_only_def current_user_blog_admin delete_post_def)
       (simp add: example_defs store_defs)
  show ?thesis
    using admin_only_denies [of "blog (Some 2)" delete_post 1 "''x''" NotSubmitted 1]
          admin_only_denies [of "blog None" delete_post 1 "''November 03, 2026''" _ 1]
          current_user_blog_alice a n d
    by (simp add: is_authenticated_def)
qed

subsection \<open>C2: validation on login\<close>

text \<open>
  C2 says that the login handler queries the User table, and establishes a session, only
  when the form validates. The handler tests \<^verbatim>\<open>login_form.validate_on_submit\<close> without
  calling it, where \<^verbatim>\<open>register\<close>, \<^verbatim>\<open>show_post\<close>, \<^verbatim>\<open>add_new_post\<close> and \<^verbatim>\<open>edit_post\<close> call it.
  So a submitted form whose validators fail, with the email of a stored user and a
  password that matches the stored hash, is looked up and logged in.
\<close>

theorem login_skips_validation:
  assumes "filter_by_email_first (users w) (lf_email d) = Some u"
    and "check_password_hash (password u) (lf_password d)"
  shows "validate_on_submit (Submitted d False) = False
       \<and> login check_password_hash (Submitted d False) w =
           Inr (Redirect Get_all_posts, w\<lparr>session_user_id := Some (uid u)\<rparr>)"
  using assms by (simp add: login_def login_user_def)

text \<open>
  Witness: the second user logs in with a form that fails validation.
\<close>

theorem login_skips_validation_witness:
  "filter_by_email_first (users (blog None)) ''a@x.com'' = Some alice_row
   \<and> toy_check (password alice_row) ''pw''
   \<and> login toy_check (Submitted \<lparr>lf_email = ''a@x.com'', lf_password = ''pw''\<rparr> False) (blog None) =
       Inr (Redirect Get_all_posts, blog (Some 2))"
proof -
  have e: "filter_by_email_first (users (blog None)) ''a@x.com'' = Some alice_row"
    by (simp add: example_defs filter_by_email_first_def)
  have c: "toy_check (password alice_row) ''pw''"
    by (simp add: example_defs)
  have s: "(blog None)\<lparr>session_user_id := Some (uid alice_row)\<rparr> = blog (Some 2)"
    by (simp add: example_defs)
  show ?thesis
    using login_skips_validation
      [of "blog None" "\<lparr>lf_email = ''a@x.com'', lf_password = ''pw''\<rparr>" alice_row toy_check] e c s
    by simp
qed

subsection \<open>C3: deleting an absent post\<close>

text \<open>
  C3 says that a delete by the administrator naming an absent post ID completes without an
  unhandled fault. The handler passes the result of the lookup, \<^verbatim>\<open>None\<close>, to
  \<^verbatim>\<open>db.session.delete\<close>, which raises \<^verbatim>\<open>UnmappedInstanceError\<close>; nothing catches it.
\<close>

theorem delete_absent_post_raises:
  assumes "current_user w = Some u" and "uid u = 1"
    and "query_get pid (blog_posts w) post_id = None"
  shows "delete_route post_id w = Inl UnmappedInstanceError"
  using assms by (simp add: delete_route_def admin_only_def delete_post_def db_delete_post_def)

text \<open>
  Witness: two consecutive deletes of post 1 by the administrator; the first removes the
  post, the second raises.
\<close>

theorem delete_absent_post_raises_witness:
  "current_user blog_without_post_one = Some admin_row \<and> uid admin_row = 1
   \<and> query_get pid (blog_posts blog_without_post_one) 1 = None
   \<and> delete_route 1 (blog (Some 1)) = Inr (Redirect Get_all_posts, blog_without_post_one)
   \<and> delete_route 1 blog_without_post_one = Inl UnmappedInstanceError"
proof -
  have c: "current_user blog_without_post_one = Some admin_row"
    by (simp add: blog_without_post_one_def example_defs session_defs query_get_def)
  have a: "uid admin_row = 1" by (simp add: admin_row_def)
  have q: "query_get pid (blog_posts blog_without_post_one) 1 = None"
    by (simp add: blog_without_post_one_def example_defs query_get_def)
  have d: "delete_route 1 (blog (Some 1)) = Inr (Redirect Get_all_posts, blog_without_post_one)"
    by (simp add: delete_route_def admin_only_def current_user_blog_admin delete_post_def)
       (simp add: blog_without_post_one_def example_defs store_defs)
  show ?thesis
    using delete_absent_post_raises [OF c a q] c a q d by simp
qed

subsection \<open>C4: the parent of a comment\<close>

text \<open>
  C4 says that no Comment row is ever inserted with a null parent post. A valid comment
  submission by an authenticated user on the detail page of an absent post ID inserts a
  row whose author is the current user and whose parent post reference is null.
\<close>

theorem comment_on_absent_post:
  assumes "current_user w = Some u"
    and "query_get pid (blog_posts w) post_id = None"
  shows "show_post (Submitted d True) post_id w =
           Inr (Render ''post.html'',
                w\<lparr>comments := comments w @
                    [\<lparr>cid = next_id (map cid (comments w)), comment_text = cf_body d,
                      comment_author_id = Some (uid u), comment_post_id = None\<rparr>]\<rparr>)"
  using assms by (simp add: show_post_def db_add_comment_def)

text \<open>
  Witness: the second user comments on post 99, which does not exist.
\<close>

theorem comment_on_absent_post_witness:
  "current_user (blog (Some 2)) = Some alice_row
   \<and> query_get pid (blog_posts (blog (Some 2))) 99 = None
   \<and> show_post (Submitted \<lparr>cf_body = ''nice post''\<rparr> True) 99 (blog (Some 2)) =
       Inr (Render ''post.html'',
            (blog (Some 2))\<lparr>comments :=
               [\<lparr>cid = 1, comment_text = ''nice post'', comment_author_id = Some 2,
                 comment_post_id = None\<rparr>]\<rparr>)"
proof -
  have q: "query_get pid (blog_posts (blog (Some 2))) 99 = None"
    by (simp add: example_defs query_get_def)
  have n: "next_id (map cid (comments (blog (Some 2)))) = 1" "comments (blog (Some 2)) = []"
    "uid alice_row = 2"
    by (simp_all add: example_defs next_id_def)
  show ?thesis
    using comment_on_absent_post [OF current_user_blog_alice q, of "\<lparr>cf_body = ''nice post''\<rparr>"]
      current_user_blog_alice q n
    by simp
qed

subsection \<open>C5: registration with a known email\<close>

text \<open>
  C5, amended. For every registration submission whose email already exists in the User
  table, no User row is inserted and the tables and the session are unchanged; when the
  submission passes form validation, the response redirects to the login page with the
  warning flashed; when it does not, the registration form is rendered again and nothing
  changes.
\<close>

theorem register_duplicate_email:
  assumes "rf_email d \<in> email ` set (users w)"
  shows "\<exists>r w'. register generate_password_hash (Submitted d ok) w = Inr (r, w')
           \<and> users w' = users w \<and> blog_posts w' = blog_posts w \<and> comments w' = comments w
           \<and> session_user_id w' = session_user_id w
           \<and> (if ok then r = Redirect Login
                        \<and> flashes w' = flashes w @
                            [''You've already sign up with that email, login instead'']
               else r = Render ''register.html'' \<and> w' = w)"
proof -
  from assms obtain u where "filter_by_email_first (users w) (rf_email d) = Some u"
    using first_None_iff [of "users w" "rf_email d"] by (cases "filter_by_email_first (users w) (rf_email d)") auto
  then show ?thesis
    by (cases ok) (simp_all add: register_def flash_def)
qed

text \<open>
  Witness: a valid submission with the email of the second user.
\<close>

theorem register_duplicate_email_witness:
  "''a@x.com'' \<in> email ` set (users (blog None))
   \<and> register toy_hash
        (Submitted \<lparr>rf_email = ''a@x.com'', rf_password = ''other'', rf_name = ''Al''\<rparr> True)
        (blog None) =
       Inr (Redirect Login,
            (blog None)\<lparr>flashes := [''You've already sign up with that email, login instead'']\<rparr>)"
proof -
  have m: "''a@x.com'' \<in> email ` set (users (blog None))"
    by (simp add: example_defs)
  have f: "flashes (blog None) = []" by (simp add: blog_def)
  from register_duplicate_email
    [of "\<lparr>rf_email = ''a@x.com'', rf_password = ''other'', rf_name = ''Al''\<rparr>" "blog None"
        toy_hash True]
  obtain r w' where
    "register toy_hash
        (Submitted \<lparr>rf_email = ''a@x.com'', rf_password = ''other'', rf_name = ''Al''\<rparr> True)
        (blog None) = Inr (r, w')"
    "users w' = users (blog None)" "blog_posts w' = blog_posts (blog None)"
    "comments w' = comments (blog None)" "session_user_id w' = session_user_id (blog None)"
    "r = Redirect Login"
    "flashes w' = [''You've already sign up with that email, login instead'']"
    using m f by auto
  moreover from this have
    "w' = (blog None)\<lparr>flashes := [''You've already sign up with that email, login instead'']\<rparr>"
    by simp
  ultimately show ?thesis using m by simp
qed

text \<open>
  Counterexample to C5 as stated (every submission redirects to the login page): a
  submission with a known email and an empty password, which the validators refuse, gets
  the registration form again.
\<close>

theorem register_duplicate_invalid_rerenders:
  "''a@x.com'' \<in> email ` set (users (blog None))
   \<and> register toy_hash
        (Submitted \<lparr>rf_email = ''a@x.com'', rf_password = '''', rf_name = ''Alice''\<rparr> False)
        (blog None) = Inr (Render ''register.html'', blog None)"
  by (simp add: register_def example_defs)

subsection \<open>C6: registration with a fresh email\<close>

text \<open>
  C6. For every valid registration submission with a fresh email, exactly one User row is
  appended, holding the submitted email and name and, as password, the output of the
  hasher on the submitted password; its primary key is new; the session is bound to that
  row, which is the current user of the resulting state; and the response redirects to
  the listing.
\<close>

theorem register_fresh_email:
  assumes "rf_email d \<notin> email ` set (users w)"
  shows "let new_user = \<lparr>uid = next_id (map uid (users w)), email = rf_email d,
                         password = generate_password_hash (rf_password d), name = rf_name d\<rparr>;
             w' = w\<lparr>users := users w @ [new_user], session_user_id := Some (uid new_user)\<rparr>
         in register generate_password_hash (Submitted d True) w = Inr (Redirect Get_all_posts, w')
            \<and> length (users w') = length (users w) + 1
            \<and> uid new_user \<notin> uid ` set (users w)
            \<and> current_user w' = Some new_user"
proof -
  let ?n = "next_id (map uid (users w))"
  have none: "filter_by_email_first (users w) (rf_email d) = None"
    using assms by (simp add: first_None_iff)
  have ex: "\<not> list_ex (\<lambda>u. email u = rf_email d) (users w)"
    using assms by (simp add: list_ex_email)
  have fresh: "?n \<notin> uid ` set (users w)"
    using next_id_greater [of ?n "map uid (users w)"] by auto
  have q: "query_get uid (users w) ?n = None"
    by (rule query_get_next_id)
  have reg: "register generate_password_hash (Submitted d True) w =
      Inr (Redirect Get_all_posts,
           w\<lparr>users := users w @ [\<lparr>uid = ?n, email = rf_email d,
                         password = generate_password_hash (rf_password d), name = rf_name d\<rparr>],
             session_user_id := Some ?n\<rparr>)"
    by (simp add: register_def none db_add_user_def ex login_user_def Let_def)
  have cu: "current_user (w\<lparr>users := users w @ [\<lparr>uid = ?n, email = rf_email d,
                         password = generate_password_hash (rf_password d), name = rf_name d\<rparr>],
             session_user_id := Some ?n\<rparr>) = Some \<lparr>uid = ?n, email = rf_email d,
                         password = generate_password_hash (rf_password d), name = rf_name d\<rparr>"
    using q by (simp add: current_user_def load_user_def query_get_def find_append)
  show ?thesis
    unfolding Let_def using reg fresh cu by simp
qed

text \<open>
  Witness: a third user registers and gets primary key 3.
\<close>

theorem register_fresh_email_witness:
  "''b@x.com'' \<notin> email ` set (users (blog None))
   \<and> register toy_hash
        (Submitted \<lparr>rf_email = ''b@x.com'', rf_password = ''pw'', rf_name = ''Bob''\<rparr> True)
        (blog None) =
       Inr (Redirect Get_all_posts,
            (blog (Some 3))\<lparr>users := [admin_row, alice_row,
               \<lparr>uid = 3, email = ''b@x.com'', password = ''pbkdf2:sha256$pw'', name = ''Bob''\<rparr>]\<rparr>)"
proof -
  have m: "''b@x.com'' \<notin> email ` set (users (blog None))"
    by (simp add: example_defs)
  have n: "next_id (map uid (users (blog None))) = 3"
    by (simp add: example_defs next_id_def)
  have w: "(blog None)\<lparr>users := users (blog None) @
              [\<lparr>uid = 3, email = ''b@x.com'', password = toy_hash ''pw'', name = ''Bob''\<rparr>],
            session_user_id := Some 3\<rparr> =
           (blog (Some 3))\<lparr>users := [admin_row, alice_row,
               \<lparr>uid = 3, email = ''b@x.com'', password = ''pbkdf2:sha256$pw'', name = ''Bob''\<rparr>]\<rparr>"
    by (simp add: blog_def toy_hash_def)
  show ?thesis
    using register_fresh_email
      [of "\<lparr>rf_email = ''b@x.com'', rf_password = ''pw'', rf_name = ''Bob''\<rparr>" "blog None" toy_hash,
       OF _] m n w
    by (simp add: Let_def)
qed

subsection \<open>C7: comments by an anonymous caller\<close>

text \<open>
  C7, amended. For every comment submission by an unauthenticated caller on a post detail
  page, no Comment row is inserted; when the submission passes form validation, the
  response redirects to the login page, the only change of state is the flashed warning,
  and the outcome is the same for any other drafted text \<open>d'\<close> (the draft is discarded);
  when it does not, the detail page is rendered again and nothing changes.
\<close>

theorem anonymous_comment:
  assumes "current_user w = None"
  shows "\<exists>r w'. show_post (Submitted d ok) post_id w = Inr (r, w')
           \<and> comments w' = comments w
           \<and> (if ok then r = Redirect Login \<and> w' = flash ''You need to login to comment'' w
                        \<and> show_post (Submitted d' ok) post_id w = Inr (r, w')
               else r = Render ''post.html'' \<and> w' = w)"
  using assms by (cases ok) (simp_all add: show_post_def flash_def)

text \<open>
  Witness: an anonymous caller submits a valid comment on post 1.
\<close>

theorem anonymous_comment_witness:
  "current_user (blog None) = None
   \<and> show_post (Submitted \<lparr>cf_body = ''nice post''\<rparr> True) 1 (blog None) =
       Inr (Redirect Login, (blog None)\<lparr>flashes := [''You need to login to comment'']\<rparr>)"
proof -
  have c: "current_user (blog None) = None" by (simp add: current_user_def blog_def)
  have f: "flash ''You need to login to comment'' (blog None) =
           (blog None)\<lparr>flashes := [''You need to login to comment'']\<rparr>"
    by (simp add: flash_def blog_def)
  show ?thesis
    using anonymous_comment [OF c, of "\<lparr>cf_body = ''nice post''\<rparr>" True 1] c f by auto
qed

text \<open>
  Counterexample to C7 as stated (every submission redirects to the login page): an
  anonymous submission with an empty body, which the validators refuse, gets the detail
  page again.
\<close>

theorem anonymous_invalid_comment_rerenders:
  "current_user (blog None) = None
   \<and> show_post (Submitted \<lparr>cf_body = ''''\<rparr> False) 1 (blog None) =
       Inr (Render ''post.html'', blog None)"
  by (simp add: show_post_def current_user_def blog_def)

subsection \<open>C8: login with a wrong password\<close>

text \<open>
  C8. For every login submission whose email matches a stored User and whose password
  does not match the stored hash, the login form is rendered again (not a redirect), the
  message \<^verbatim>\<open>Incorrect password\<close> is flashed, and the session is unchanged.
\<close>

theorem login_wrong_password:
  assumes "filter_by_email_first (users w) (lf_email d) = Some u"
    and "\<not> check_password_hash (password u) (lf_password d)"
  shows "login check_password_hash (Submitted d ok) w =
           Inr (Render ''login.html'', flash ''Incorrect password'' w)
       \<and> session_user_id (flash ''Incorrect password'' w) = session_user_id w
       \<and> flashes (flash ''Incorrect password'' w) = flashes w @ [''Incorrect password'']"
  using assms by (simp add: login_def flash_def)

text \<open>
  Witness: a wrong password for the second user.
\<close>

theorem login_wrong_password_witness:
  "filter_by_email_first (users (blog None)) ''a@x.com'' = Some alice_row
   \<and> \<not> toy_check (password alice_row) ''guess''
   \<and> login toy_check (Submitted \<lparr>lf_email = ''a@x.com'', lf_password = ''guess''\<rparr> True) (blog None) =
       Inr (Render ''login.html'', (blog None)\<lparr>flashes := [''Incorrect password'']\<rparr>)"
proof -
  have e: "filter_by_email_first (users (blog None)) ''a@x.com'' = Some alice_row"
    by (simp add: example_defs filter_by_email_first_def)
  have c: "\<not> toy_check (password alice_row) ''guess''"
    by (simp add: example_defs)
  have f: "flash ''Incorrect password'' (blog None) = (blog None)\<lparr>flashes := [''Incorrect password'']\<rparr>"
    by (simp add: flash_def blog_def)
  show ?thesis
    using login_wrong_password
      [of "blog None" "\<lparr>lf_email = ''a@x.com'', lf_password = ''guess''\<rparr>" alice_row toy_check True]
      e c f
    by simp
qed

subsection \<open>C9: editing a post\<close>

text \<open>
  C9, amended. For every valid edit submission by the administrator on an existing post
  whose submitted title is not the title of another post, exactly the four editable
  fields (title, subtitle, cover image URL, body) of that post are replaced by the
  submitted values; its primary key, author reference and date, every other post, and
  the users, comments, session and flashed messages are unchanged; and the response
  redirects to the detail page of that post.
\<close>

theorem edit_post_by_admin:
  assumes "current_user w = Some u" and "uid u = 1"
    and "query_get pid (blog_posts w) post_id = Some post"
    and "\<forall>q \<in> set (blog_posts w). pid q \<noteq> post_id \<longrightarrow> title q \<noteq> pf_title d"
  shows "edit_post_route (Submitted d True) post_id w =
           Inr (Redirect (Show_post post_id),
                w\<lparr>blog_posts :=
                    map (\<lambda>q. if pid q = post_id
                             then q\<lparr>title := pf_title d, subtitle := pf_subtitle d,
                                    img_url := pf_img_url d, body := pf_body d\<rparr>
                             else q) (blog_posts w)\<rparr>)"
proof -
  have p: "pid post = post_id"
    using assms(3) by (auto simp: query_get_def find_Some_iff)
  have "\<not> list_ex (\<lambda>q. pid q \<noteq> pid post \<and> title q = pf_title d) (blog_posts w)"
    using assms(4) p by (auto simp: list_ex_iff)
  then show ?thesis
    using assms(1-3) p
    by (simp add: edit_post_route_def admin_only_def edit_post_def db_update_post_def
        set_fields_def)
qed

text \<open>
  Witness: the administrator edits post 2.
\<close>

theorem edit_post_by_admin_witness:
  "current_user (blog (Some 1)) = Some admin_row \<and> uid admin_row = 1
   \<and> query_get pid (blog_posts (blog (Some 1))) 2 = Some post_two
   \<and> ''T9'' \<notin> title ` {q \<in> set (blog_posts (blog (Some 1))). pid q \<noteq> 2}
   \<and> edit_post_route
        (Submitted \<lparr>pf_title = ''T9'', pf_subtitle = ''S9'', pf_img_url = ''http://x/k.png'',
                    pf_body = ''B9''\<rparr> True) 2 (blog (Some 1)) =
       Inr (Redirect (Show_post 2),
            (blog (Some 1))\<lparr>blog_posts := [post_one,
               \<lparr>pid = 2, author_id = Some 1, title = ''T9'', subtitle = ''S9'',
                date = ''November 03, 2026'', body = ''B9'', img_url = ''http://x/k.png''\<rparr>]\<rparr>)"
proof -
  have q: "query_get pid (blog_posts (blog (Some 1))) 2 = Some post_two"
    by (simp add: example_defs query_get_def)
  have a: "uid admin_row = 1" by (simp add: admin_row_def)
  have t: "\<forall>q \<in> set (blog_posts (blog (Some 1))). pid q \<noteq> 2 \<longrightarrow> title q \<noteq> ''T9''"
    by (simp add: example_defs)
  have m: "map (\<lambda>q. if pid q = 2
                    then q\<lparr>title := ''T9'', subtitle := ''S9'', img_url := ''http://x/k.png'',
                           body := ''B9''\<rparr>
                    else q) (blog_posts (blog (Some 1))) =
           [post_one,
            \<lparr>pid = 2, author_id = Some 1, title = ''T9'', subtitle = ''S9'',
             date = ''November 03, 2026'', body = ''B9'', img_url = ''http://x/k.png''\<rparr>]"
    by (simp add: example_defs)
  have r: "edit_post_route
        (Submitted \<lparr>pf_title = ''T9'', pf_subtitle = ''S9'', pf_img_url = ''http://x/k.png'',
                    pf_body = ''B9''\<rparr> True) 2 (blog (Some 1)) =
       Inr (Redirect (Show_post 2),
            (blog (Some 1))\<lparr>blog_posts :=
               map (\<lambda>q. if pid q = 2
                    then q\<lparr>title := ''T9'', subtitle := ''S9'', img_url := ''http://x/k.png'',
                           body := ''B9''\<rparr>
                    else q) (blog_posts (blog (Some 1)))\<rparr>)"
    using edit_post_by_admin [OF current_user_blog_admin a q,
        of "\<lparr>pf_title = ''T9'', pf_subtitle = ''S9'', pf_img_url = ''http://x/k.png'',
             pf_body = ''B9''\<rparr>"] t
    by simp
  have t': "''T9'' \<notin> title ` {q \<in> set (blog_posts (blog (Some 1))). pid q \<noteq> 2}"
    using t by auto
  show ?thesis
    unfolding r m using current_user_blog_admin a q t' by simp
qed

text \<open>
  Counterexample to C9 as stated (every valid edit replaces the fields): the title
  submitted for post 2 is the title of post 1, and the store refuses the update.
\<close>

theorem edit_post_title_clash:
  "current_user (blog (Some 1)) = Some admin_row \<and> uid admin_row = 1
   \<and> query_get pid (blog_posts (blog (Some 1))) 2 = Some post_two
   \<and> edit_post_route
        (Submitted \<lparr>pf_title = ''T1'', pf_subtitle = ''S2'', pf_img_url = ''http://x/j.png'',
                    pf_body = ''B2''\<rparr> True) 2 (blog (Some 1)) = Inl IntegrityError"
proof -
  have q: "query_get pid (blog_posts (blog (Some 1))) 2 = Some post_two"
    by (simp add: example_defs query_get_def)
  have a: "uid admin_row = 1" by (simp add: admin_row_def)
  have "edit_post_route
        (Submitted \<lparr>pf_title = ''T1'', pf_subtitle = ''S2'', pf_img_url = ''http://x/j.png'',
                    pf_body = ''B2''\<rparr> True) 2 (blog (Some 1)) = Inl IntegrityError"
    by (simp add: edit_post_route_def admin_only_def current_user_blog_admin a edit_post_def q)
       (simp add: db_update_post_def example_defs)
  then show ?thesis using q a current_user_blog_admin by simp
qed

subsection \<open>C10: a missing secret key\<close>

text \<open>
  C10, amended. If the environment holds no \<^verbatim>\<open>SECRET_KEY\<close>, start-up does not fail: it
  completes with a configuration whose secret key is unset.
\<close>

theorem startup_never_fails:
  assumes "environ ''SECRET_KEY'' = None"
  shows "\<exists>c. startup environ = Inr c \<and> secret_key c = None"
  using assms by (simp add: startup_def environ_get_def)

text \<open>
  Witness: an environment that sets only the database URL.
\<close>

theorem startup_never_fails_witness:
  "[''DATABASE_URL1'' \<mapsto> ''postgres://db''] ''SECRET_KEY'' = None
   \<and> startup [''DATABASE_URL1'' \<mapsto> ''postgres://db''] =
       Inr \<lparr>secret_key = None, sqlalchemy_database_uri = ''postgres://db''\<rparr>"
proof -
  have a: "[''DATABASE_URL1'' \<mapsto> ''postgres://db''] ''SECRET_KEY'' = None" by simp
  have "startup [''DATABASE_URL1'' \<mapsto> ''postgres://db''] =
       Inr \<lparr>secret_key = None, sqlalchemy_database_uri = ''postgres://db''\<rparr>"
    using startup_never_fails [of "[''DATABASE_URL1'' \<mapsto> ''postgres://db'']"] a by (auto simp: startup_def environ_get_def)
  then show ?thesis using a by simp
qed

text \<open>
  Counterexample to C10 as stated (start-up fails fast): with an empty environment,
  start-up returns a configuration, with no secret key and the default database URI.
\<close>

theorem startup_without_secret_key:
  "startup Map.empty = Inr \<lparr>secret_key = None, sqlalchemy_database_uri = ''sqlite:///blog.db''\<rparr>"
  by (simp add: startup_def environ_get_def)

end
